theory Spec2Isabelle
  imports Complex_Main "HOL-Library.AList"
begin

section \<open>Tab selection store\<close>

text \<open>
  Both \<^verbatim>\<open>tabs.jsx\<close> files keep the active tab in one piece of component state,
  \<^verbatim>\<open>const [activeTab, setActiveTab] = useState(defaultValue)\<close>. Tab identifiers are
  strings. A call of the state setter replaces the stored identifier; React then renders
  the component tree again from the new state.
\<close>

record tabs_state =
  activeTab :: string

definition useState :: "string \<Rightarrow> tabs_state" where
  "useState defaultValue = \<lparr>activeTab = defaultValue\<rparr>"

definition setActiveTab :: "string \<Rightarrow> tabs_state \<Rightarrow> tabs_state" where
  "setActiveTab v s = s\<lparr>activeTab := v\<rparr>"

datatype error = TypeError

text \<open>
  The children written inside \<^verbatim>\<open><Tabs>\<close>: the three tab components of the file and any
  other element with children (\<open>Host\<close>: a \<^verbatim>\<open>div\<close>, a table, a chart).
\<close>

datatype element =
    TabsList "element list"
  | TabsTrigger string
  | TabsContent string "element list"
  | Host "element list"

text \<open>
  What a render produces. A button carries the value of its trigger, whether it has the
  selected styling (\<^verbatim>\<open>activeTab === value\<close>), and the function its click handler
  \<^verbatim>\<open>() => setActiveTab(value)\<close> calls: the state setter, or \<^verbatim>\<open>undefined\<close> when the trigger
  was given no \<^verbatim>\<open>setActiveTab\<close>. A component that returns \<^verbatim>\<open>null\<close> contributes no node.
\<close>

datatype setter = Setter | Undefined

datatype node =
    Button string bool setter
  | Div "node list"

subsection \<open>Shared-context variant (src/components/ui/tabs.jsx)\<close>

text \<open>
  \<^verbatim>\<open>Tabs\<close> provides \<^verbatim>\<open>{ activeTab, setActiveTab }\<close> through \<^verbatim>\<open>TabsContext\<close>; every
  \<^verbatim>\<open>TabsTrigger\<close> and \<^verbatim>\<open>TabsContent\<close> below it, at any depth, reads it with \<^verbatim>\<open>useContext\<close>.
\<close>

fun render_ctx :: "tabs_state \<Rightarrow> element \<Rightarrow> node list" where
  "render_ctx c (TabsList cs) = [Div (concat (map (render_ctx c) cs))]"
| "render_ctx c (TabsTrigger v) = [Button v (activeTab c = v) Setter]"
| "render_ctx c (TabsContent v cs) =
     (if v \<noteq> activeTab c then [] else [Div (concat (map (render_ctx c) cs))])"
| "render_ctx c (Host cs) = [Div (concat (map (render_ctx c) cs))]"

definition Tabs_ctx :: "tabs_state \<Rightarrow> element list \<Rightarrow> node" where
  "Tabs_ctx s cs = Div (concat (map (render_ctx s) cs))"

subsection \<open>Prop-threading variant (src/src/components/ui/tabs.jsx)\<close>

text \<open>
  \<^verbatim>\<open>Tabs\<close> clones each of its own children with the two extra props
  \<^verbatim>\<open>{ activeTab, setActiveTab }\<close> (\<^verbatim>\<open>React.Children.map\<close> with \<^verbatim>\<open>React.cloneElement\<close>).
  The first argument of \<open>render_props\<close> is what an element received: \<open>Some s\<close> for a
  child of \<^verbatim>\<open>Tabs\<close>, \<open>None\<close> when both props are \<^verbatim>\<open>undefined\<close>. \<^verbatim>\<open>TabsList\<close> takes only
  \<^verbatim>\<open>children\<close> and \<^verbatim>\<open>className\<close> from its props and renders its children as they are, and
  so does every other element: nothing below the first level receives the props. With
  \<^verbatim>\<open>activeTab\<close> undefined, \<^verbatim>\<open>activeTab === value\<close> is false and \<^verbatim>\<open>value !== activeTab\<close> is
  true for every string \<^verbatim>\<open>value\<close>.
\<close>

fun render_props :: "tabs_state option \<Rightarrow> element \<Rightarrow> node list" where
  "render_props p (TabsList cs) = [Div (concat (map (render_props None) cs))]"
| "render_props p (TabsTrigger v) =
     [Button v (map_option activeTab p = Some v)
        (case p of None \<Rightarrow> Undefined | Some s \<Rightarrow> Setter)]"
| "render_props p (TabsContent v cs) =
     (if Some v \<noteq> map_option activeTab p then []
      else [Div (concat (map (render_props None) cs))])"
| "render_props p (Host cs) = [Div (concat (map (render_props None) cs))]"

definition Tabs_props :: "tabs_state \<Rightarrow> element list \<Rightarrow> node" where
  "Tabs_props s cs = Div (concat (map (render_props (Some s)) cs))"

subsection \<open>Clicks\<close>

text \<open>
  The buttons of a rendered tree in document order, and a click on one of them: the
  handler calls \<^verbatim>\<open>setActiveTab(value)\<close>, which replaces the state, or raises a
  \<^verbatim>\<open>TypeError\<close> when \<^verbatim>\<open>setActiveTab\<close> is \<^verbatim>\<open>undefined\<close> (the state is then left as it was).
  \<open>press\<close> clicks the first trigger of the given value; with no such trigger on the
  page there is nothing to click.
\<close>

fun buttons :: "node \<Rightarrow> (string \<times> bool \<times> setter) list" where
  "buttons (Button v sel f) = [(v, sel, f)]"
| "buttons (Div ns) = concat (map buttons ns)"

fun onClick :: "string \<times> bool \<times> setter \<Rightarrow> tabs_state \<Rightarrow> error + tabs_state" where
  "onClick (v, sel, Setter) s = Inr (setActiveTab v s)"
| "onClick (v, sel, Undefined) s = Inl TypeError"

definition press :: "node \<Rightarrow> string \<Rightarrow> tabs_state \<Rightarrow> error + tabs_state" where
  "press view x s =
     (case find (\<lambda>b. fst b = x) (buttons view) of
        None \<Rightarrow> Inr s
      | Some b \<Rightarrow> onClick b s)"

text \<open>
  The state after a click: the new state, or the old one when the handler raised.
\<close>

definition afterClick :: "tabs_state \<Rightarrow> error + tabs_state \<Rightarrow> tabs_state" where
  "afterClick s res = (case res of Inl e \<Rightarrow> s | Inr s' \<Rightarrow> s')"

text \<open>
  The store's query \<open>isActive\<close>: whether a content panel of the given value is shown.
  In the prop-threading variant the panel is a child of \<^verbatim>\<open>Tabs\<close>, as in the dashboard.
\<close>

definition isActive_ctx :: "tabs_state \<Rightarrow> string \<Rightarrow> bool" where
  "isActive_ctx s v = (render_ctx s (TabsContent v []) \<noteq> [])"

definition isActive_props :: "tabs_state \<Rightarrow> string \<Rightarrow> bool" where
  "isActive_props s v = (render_props (Some s) (TabsContent v []) \<noteq> [])"

text \<open>
  An element is \<open>inert\<close> when no trigger and no content panel stands in it, and
  \<open>direct\<close> when it is a trigger or a content panel, or is inert, and nothing below it
  is a trigger or a content panel: a tab group of direct children has all its triggers
  and panels at the first level.
\<close>

fun inert :: "element \<Rightarrow> bool" where
  "inert (TabsList cs) = list_all inert cs"
| "inert (TabsTrigger v) = False"
| "inert (TabsContent v cs) = False"
| "inert (Host cs) = list_all inert cs"

fun direct :: "element \<Rightarrow> bool" where
  "direct (TabsTrigger v) = True"
| "direct (TabsContent v cs) = list_all inert cs"
| "direct (TabsList cs) = list_all inert cs"
| "direct (Host cs) = list_all inert cs"

text \<open>The children of \<^verbatim>\<open><Tabs defaultValue="orders">\<close> in the dashboard.\<close>

definition dashboard_tabs :: "element list" where
  "dashboard_tabs =
     [TabsList [TabsTrigger ''orders'', TabsTrigger ''inventory'',
                TabsTrigger ''returns'', TabsTrigger ''analytics''],
      TabsContent ''orders'' [Host []],
      TabsContent ''inventory'' [Host []],
      TabsContent ''returns'' [Host []],
      TabsContent ''analytics'' [Host []]]"

section \<open>Metrics: percentage and averageHours\<close>

text \<open>
  The two helpers of the dashboard file:
  \<^verbatim>\<open>function percentage(part,total){return total===0?0:((part/total)*100).toFixed(1);}\<close>
  \<^verbatim>\<open>function averageHours(arr){if(!arr.length) return 0;
     return (arr.reduce((a,b)=>a+b,0)/arr.length).toFixed(1);}\<close>

  A result is a number or a string, as in the source, where \<^verbatim>\<open>toFixed\<close> returns a string.
\<close>

subsection \<open>JavaScript numbers\<close>

text \<open>
  A JavaScript number is an IEEE 754 binary64 value: \<^verbatim>\<open>NaN\<close>, an infinity, the negative
  zero, or \<open>Fin r\<close> for the rational \<open>r\<close> it stands for (\<open>Fin 0\<close> is the positive zero).
\<close>

datatype double = NaN | PosInf | NegInf | NegZero | Fin rat

datatype jsval = JNum double | JStr string

definition typeof :: "jsval \<Rightarrow> string" where
  "typeof v = (case v of JNum x \<Rightarrow> ''number'' | JStr s \<Rightarrow> ''string'')"

definition isNegative :: "double \<Rightarrow> bool" where
  "isNegative x =
     (case x of NaN \<Rightarrow> False | PosInf \<Rightarrow> False | NegInf \<Rightarrow> True | NegZero \<Rightarrow> True
      | Fin r \<Rightarrow> r < 0)"

definition finiteValue :: "double \<Rightarrow> rat option" where
  "finiteValue x =
     (case x of NaN \<Rightarrow> None | PosInf \<Rightarrow> None | NegInf \<Rightarrow> None | NegZero \<Rightarrow> Some 0
      | Fin r \<Rightarrow> Some r)"

definition signedZero :: "bool \<Rightarrow> double" where
  "signedZero neg = (if neg then NegZero else Fin 0)"

definition signedInfinity :: "bool \<Rightarrow> double" where
  "signedInfinity neg = (if neg then NegInf else PosInf)"

text \<open>\<^verbatim>\<open>x === 0\<close>: true of both zeros and of nothing else.\<close>

definition isZero :: "double \<Rightarrow> bool" where
  "isZero x = (x = Fin 0 \<or> x = NegZero)"

text \<open>
  Rounding a rational to binary64, to the nearest value and to the even significand
  when two are equally near. A magnitude \<open>a\<close> with \<open>2^e \<le> a < 2^(e+1)\<close> is rounded to a
  multiple of \<open>2^(e-52)\<close>, with \<open>e\<close> no smaller than \<open>-1022\<close> (below that the values are
  subnormal, multiples of \<open>2^-1074\<close>); a result of \<open>2^1024\<close> or more is an infinity, and a
  result that rounds to nothing is a zero of the sign of the argument.
\<close>

function bitlen :: "int \<Rightarrow> int" where
  "bitlen n = (if n \<le> 0 then 0 else 1 + bitlen (n div 2))"
  by pat_completeness auto
termination
  by (relation "measure nat") auto

declare bitlen.simps [simp del]

definition pow2 :: "int \<Rightarrow> rat" where
  "pow2 e = (if 0 \<le> e then 2 ^ nat e else 1 / 2 ^ nat (- e))"

definition floorlog2 :: "rat \<Rightarrow> int" where
  "floorlog2 a =
     (if 1 \<le> a then bitlen \<lfloor>a\<rfloor> - 1 else - bitlen (\<lceil>1 / a\<rceil> - 1))"

definition roundHalfEven :: "rat \<Rightarrow> int" where
  "roundHalfEven m =
     (let f = \<lfloor>m\<rfloor>; d = m - of_int f
      in if d < 1 / 2 then f else if 1 / 2 < d then f + 1 else if even f then f else f + 1)"

definition roundMagnitude :: "rat \<Rightarrow> rat" where
  "roundMagnitude a =
     (let e = max (floorlog2 a) (- 1022); ulp = pow2 (e - 52)
      in of_int (roundHalfEven (a / ulp)) * ulp)"

definition fl :: "rat \<Rightarrow> double" where
  "fl r =
     (if r = 0 then Fin 0
      else
        let v = roundMagnitude \<bar>r\<bar>
        in if pow2 1024 \<le> v then signedInfinity (r < 0)
           else if v = 0 then signedZero (r < 0)
           else Fin (if r < 0 then - v else v))"

text \<open>The operators \<^verbatim>\<open>*\<close>, \<^verbatim>\<open>/\<close> and \<^verbatim>\<open>+\<close> on numbers.\<close>

definition fmul :: "double \<Rightarrow> double \<Rightarrow> double" where
  "fmul x y =
     (if x = NaN \<or> y = NaN then NaN
      else
        case (finiteValue x, finiteValue y) of
          (None, None) \<Rightarrow> signedInfinity (isNegative x \<noteq> isNegative y)
        | (None, Some b) \<Rightarrow> if b = 0 then NaN else signedInfinity (isNegative x \<noteq> isNegative y)
        | (Some a, None) \<Rightarrow> if a = 0 then NaN else signedInfinity (isNegative x \<noteq> isNegative y)
        | (Some a, Some b) \<Rightarrow>
            if a * b = 0 then signedZero (isNegative x \<noteq> isNegative y) else fl (a * b))"

definition fdiv :: "double \<Rightarrow> double \<Rightarrow> double" where
  "fdiv x y =
     (if x = NaN \<or> y = NaN then NaN
      else
        case (finiteValue x, finiteValue y) of
          (None, None) \<Rightarrow> NaN
        | (None, Some b) \<Rightarrow> signedInfinity (isNegative x \<noteq> isNegative y)
        | (Some a, None) \<Rightarrow> signedZero (isNegative x \<noteq> isNegative y)
        | (Some a, Some b) \<Rightarrow>
            if b = 0 then (if a = 0 then NaN else signedInfinity (isNegative x \<noteq> isNegative y))
            else if a = 0 then signedZero (isNegative x \<noteq> isNegative y)
            else fl (a / b))"

definition fadd :: "double \<Rightarrow> double \<Rightarrow> double" where
  "fadd x y =
     (if x = NaN \<or> y = NaN then NaN
      else
        case (finiteValue x, finiteValue y) of
          (None, None) \<Rightarrow> if x = y then x else NaN
        | (None, Some b) \<Rightarrow> x
        | (Some a, None) \<Rightarrow> y
        | (Some a, Some b) \<Rightarrow>
            if a + b = 0 then signedZero (isNegative x \<and> isNegative y) else fl (a + b))"

subsection \<open>Number.prototype.toFixed\<close>

text \<open>The decimal digits of a natural number, without leading zeros.\<close>

definition digitChar :: "nat \<Rightarrow> char" where
  "digitChar d = ''0123456789'' ! d"

function decimal :: "int \<Rightarrow> string" where
  "decimal n =
     (if n < 10 then [digitChar (nat n)]
      else decimal (n div 10) @ [digitChar (nat (n mod 10))])"
  by pat_completeness auto
termination
  by (relation "measure nat") auto

declare decimal.simps [simp del]

text \<open>
  Fixed notation of a magnitude \<open>a\<close> with \<open>f\<close> fraction digits: \<open>n\<close> is the integer for
  which \<open>n / 10^f\<close> is nearest to \<open>a\<close>, the larger one of two; its digits are padded with
  zeros to \<open>f + 1\<close> places and the point is put before the last \<open>f\<close>.
\<close>

definition fixedDigits :: "rat \<Rightarrow> nat \<Rightarrow> string" where
  "fixedDigits a f =
     (let n = \<lfloor>a * 10 ^ f + 1 / 2\<rfloor>;
          m0 = (if n = 0 then ''0'' else decimal n)
      in if f \<noteq> 0 then
           let m1 = (if length m0 \<le> f
                     then replicate (f + 1 - length m0) (CHR ''0'') @ m0 else m0);
               k = length m1
           in take (k - f) m1 @ ''.'' @ drop (k - f) m1
         else m0)"

text \<open>
  \<^verbatim>\<open>Number::toString\<close> for a magnitude of \<open>10^21\<close> or more, which is an integer: the
  fewest significant digits that still round to the number, and of two such digit
  strings the nearer one; then the first digit, the others after a point, and the
  exponent. \<open>shortest a j\<close> looks for a multiple of \<open>10^j\<close> that rounds to \<open>a\<close>, from the
  largest power of ten down.
\<close>

fun shortest :: "rat \<Rightarrow> nat \<Rightarrow> rat" where
  "shortest a 0 = a"
| "shortest a (Suc j) =
     (let p = 10 ^ Suc j; lo = of_int \<lfloor>a / p\<rfloor> * p; hi = lo + p
      in if fl lo = Fin a \<and> fl hi = Fin a then
           (if a - lo < hi - a then lo else if hi - a < a - lo then hi
            else if even \<lfloor>a / p\<rfloor> then lo else hi)
         else if fl lo = Fin a then lo
         else if fl hi = Fin a then hi
         else shortest a j)"

declare shortest.simps [simp del]

definition stripZeros :: "string \<Rightarrow> string" where
  "stripZeros ds = rev (dropWhile (\<lambda>c. c = CHR ''0'') (rev ds))"

definition toStringLarge :: "rat \<Rightarrow> string" where
  "toStringLarge a =
     (let n0 = length (decimal \<lfloor>a\<rfloor>);
          ds = decimal \<lfloor>shortest a (n0 - 1)\<rfloor>;
          sig = stripZeros ds
      in take 1 sig @ (if length sig = 1 then [] else ''.'' @ drop 1 sig)
         @ ''e+'' @ decimal (int (length ds) - 1))"

text \<open>
  \<^verbatim>\<open>x.toFixed(f)\<close> for \<open>0 \<le> f \<le> 100\<close> (the source calls it with \<open>f = 1\<close> only). A number
  that is not finite is written by \<^verbatim>\<open>Number::toString\<close>. Otherwise the sign is split off
  (the negative zero is not below zero), and the magnitude is written in fixed notation
  below \<open>10^21\<close> and by \<^verbatim>\<open>Number::toString\<close> from there on.
\<close>

definition toFixed :: "double \<Rightarrow> nat \<Rightarrow> string" where
  "toFixed x f =
     (case x of
        NaN \<Rightarrow> ''NaN''
      | PosInf \<Rightarrow> ''Infinity''
      | NegInf \<Rightarrow> ''-Infinity''
      | NegZero \<Rightarrow> fixedDigits 0 f
      | Fin r \<Rightarrow>
          (let s = (if r < 0 then ''-'' else []);
               a = (if r < 0 then - r else r)
           in s @ (if 10 ^ 21 \<le> a then toStringLarge a else fixedDigits a f)))"

subsection \<open>The two helpers\<close>

definition percentage :: "double \<Rightarrow> double \<Rightarrow> jsval" where
  "percentage part total' =
     (if isZero total' then JNum (Fin 0)
      else JStr (toFixed (fmul (fdiv part total') (Fin 100)) 1))"

definition averageHours :: "double list \<Rightarrow> jsval" where
  "averageHours arr =
     (if length arr = 0 then JNum (Fin 0)
      else JStr (toFixed (fdiv (foldl (\<lambda>a b. fadd a b) (Fin 0) arr)
                               (Fin (of_nat (length arr)))) 1))"

subsection \<open>Reading the results\<close>

text \<open>
  The number a decimal string denotes: an optional minus sign, digits, and optionally a
  point followed by digits. This is how the properties below state the value of a
  string that \<^verbatim>\<open>toFixed\<close> returned.
\<close>

definition digitVal :: "char \<Rightarrow> nat option" where
  "digitVal c = map_of (zip ''0123456789'' [0 ..< 10]) c"

definition isDigit :: "char \<Rightarrow> bool" where
  "isDigit c = (digitVal c \<noteq> None)"

fun readNat :: "nat \<Rightarrow> string \<Rightarrow> nat option" where
  "readNat a [] = Some a"
| "readNat a (c # cs) =
     (case digitVal c of None \<Rightarrow> None | Some d \<Rightarrow> readNat (10 * a + d) cs)"

definition decimalValue :: "string \<Rightarrow> rat option" where
  "decimalValue s =
     (let neg = (take 1 s = ''-'');
          u = (if neg then drop 1 s else s);
          ip = takeWhile (\<lambda>c. c \<noteq> CHR ''.'') u;
          fp = drop (length ip + 1) u
      in if ip = [] \<or> (length ip < length u \<and> fp = []) then None
         else
           (case (readNat 0 ip, readNat 0 fp) of
              (Some a, Some b) \<Rightarrow>
                Some ((if neg then - 1 else 1) * (of_nat a + of_nat b / 10 ^ length fp))
            | _ \<Rightarrow> None))"

text \<open>A string in one-decimal notation: optional sign, digits, a point, one digit.\<close>

definition oneDecimal :: "string \<Rightarrow> bool" where
  "oneDecimal s =
     (let u = (if take 1 s = ''-'' then drop 1 s else s)
      in 3 \<le> length u \<and> list_all isDigit (take (length u - 2) u)
         \<and> u ! (length u - 2) = CHR ''.'' \<and> isDigit (last u))"

text \<open>
  Rounding to one decimal place, a half going away from zero: the nearest multiple of
  one tenth. The arithmetic mean of rationals.
\<close>

definition roundOneDecimal :: "rat \<Rightarrow> rat" where
  "roundOneDecimal x =
     (if x < 0 then - (of_int \<lfloor>- x * 10 + 1 / 2\<rfloor> / 10) else of_int \<lfloor>x * 10 + 1 / 2\<rfloor> / 10)"

definition mean :: "rat list \<Rightarrow> rat" where
  "mean arr = sum_list arr / of_nat (length arr)"

section \<open>Monthly aggregation\<close>

text \<open>
  \<^verbatim>\<open>function aggregateMonthly(arr){
    const map={}; arr.forEach(o=>{
      const month=new Date(o.date).toLocaleString('default',{month:'short'});
      if(!map[month]) map[month]={month,count:0,rate:0};
      map[month].count+=1; if(o.rate) map[month].rate=o.rate;
    });return Object.values(map);
  }\<close>

  An input record has a \<^verbatim>\<open>date\<close> string and an optional numeric \<^verbatim>\<open>rate\<close> (\<open>None\<close> when the
  field is absent, as in the orders). Both records of this section have a field \<open>rate\<close>:
  \<open>entry.rate\<close> is the input's, \<open>bucket.rate\<close> the bucket's.
\<close>

record entry =
  date :: string
  rate :: "rat option"

record bucket =
  month :: string
  count :: nat
  rate :: rat

text \<open>
  \<^verbatim>\<open>new Date(o.date)\<close> belongs to the runtime: how a string is parsed and in which time
  zone its month is read. It is an argument of the model, of type \<open>clock\<close>: the calendar
  month of the date, or \<open>None\<close> when the string is unparsable (the date object is then
  an invalid date).
\<close>

datatype calendar_month = Jan | Feb | Mar | Apr | May | Jun | Jul | Aug | Sep | Oct | Nov | Dec

type_synonym clock = "string \<Rightarrow> calendar_month option"

text \<open>
  Modelled from the spec: the short month names \<^verbatim>\<open>Jan\<close>, ..., \<^verbatim>\<open>Dec\<close>, one fixed table (the
  source takes the names from the default locale of the runtime).
\<close>

fun shortMonth :: "calendar_month \<Rightarrow> string" where
  "shortMonth Jan = ''Jan''"
| "shortMonth Feb = ''Feb''"
| "shortMonth Mar = ''Mar''"
| "shortMonth Apr = ''Apr''"
| "shortMonth May = ''May''"
| "shortMonth Jun = ''Jun''"
| "shortMonth Jul = ''Jul''"
| "shortMonth Aug = ''Aug''"
| "shortMonth Sep = ''Sep''"
| "shortMonth Oct = ''Oct''"
| "shortMonth Nov = ''Nov''"
| "shortMonth Dec = ''Dec''"

text \<open>
  \<^verbatim>\<open>toLocaleString('default', {month:'short'})\<close>: on an invalid date it returns the string
  \<^verbatim>\<open>Invalid Date\<close> and raises nothing.
\<close>

definition toLocaleString :: "calendar_month option \<Rightarrow> string" where
  "toLocaleString d = (case d of None \<Rightarrow> ''Invalid Date'' | Some m \<Rightarrow> shortMonth m)"

definition monthLabel :: "clock \<Rightarrow> entry \<Rightarrow> string" where
  "monthLabel newDate e = toLocaleString (newDate (date e))"

text \<open>
  The object \<^verbatim>\<open>map\<close> is a list of keys with their buckets, in the order in which the keys
  were added, which is the order \<^verbatim>\<open>Object.values\<close> follows for keys that are not array
  indices. None of the thirteen labels is an array index or the name of a property that
  an empty object inherits, so \<^verbatim>\<open>!map[month]\<close> holds exactly when the key has not been
  added yet. One run of the callback of \<^verbatim>\<open>forEach\<close>:
\<close>

definition forEach_body :: "clock \<Rightarrow> (string \<times> bucket) list \<Rightarrow> entry \<Rightarrow> (string \<times> bucket) list" where
  "forEach_body newDate m e =
     (let mon = monthLabel newDate e;
          m1 = (if map_of m mon = None
                then m @ [(mon, \<lparr>month = mon, count = 0, rate = 0\<rparr>)] else m);
          m2 = AList.map_entry mon (\<lambda>b. b\<lparr>count := count b + 1\<rparr>) m1
      in case entry.rate e of
           None \<Rightarrow> m2
         | Some r \<Rightarrow> if r \<noteq> 0 then AList.map_entry mon (\<lambda>b. b\<lparr>rate := r\<rparr>) m2 else m2)"

definition aggregateMonthly :: "clock \<Rightarrow> entry list \<Rightarrow> bucket list" where
  "aggregateMonthly newDate arr = map snd (foldl (forEach_body newDate) [] arr)"

text \<open>
  A clock for the examples: a date of the form \<^verbatim>\<open>YYYY-MM-DD\<close>, as in the mock data of the
  dashboard, has the month its two middle digits name; every other string is unparsable.
\<close>

definition isoMonth :: clock where
  "isoMonth s =
     (if length s = 10 \<and> s ! 4 = CHR ''-'' \<and> s ! 7 = CHR ''-''
      then map_of [(''01'', Jan), (''02'', Feb), (''03'', Mar), (''04'', Apr), (''05'', May),
                   (''06'', Jun), (''07'', Jul), (''08'', Aug), (''09'', Sep), (''10'', Oct),
                   (''11'', Nov), (''12'', Dec)] (take 2 (drop 5 s))
      else None)"

subsection \<open>What the properties compare the result with\<close>

text \<open>
  The elements of a list in the order of their first occurrence; whether a record carries
  a rate (\<^verbatim>\<open>if(o.rate)\<close>: the field is present and not zero); the rate of the last
  record of a label that carries one, \<open>0\<close> when there is none; and the bucket of a label.
\<close>

fun first_occurrences :: "'a list \<Rightarrow> 'a list" where
  "first_occurrences [] = []"
| "first_occurrences (x # xs) = x # first_occurrences (filter (\<lambda>y. y \<noteq> x) xs)"

definition carriesRate :: "entry \<Rightarrow> bool" where
  "carriesRate e = (case entry.rate e of None \<Rightarrow> False | Some r \<Rightarrow> r \<noteq> 0)"

definition lastRate :: "clock \<Rightarrow> string \<Rightarrow> entry list \<Rightarrow> rat" where
  "lastRate newDate k arr =
     (case rev (filter (\<lambda>e. monthLabel newDate e = k \<and> carriesRate e) arr) of
        [] \<Rightarrow> 0
      | e # _ \<Rightarrow> (case entry.rate e of None \<Rightarrow> 0 | Some r \<Rightarrow> r))"

definition bucketOf :: "clock \<Rightarrow> entry list \<Rightarrow> string \<Rightarrow> bucket" where
  "bucketOf newDate arr k =
     \<lparr>month = k, count = length (filter (\<lambda>e. monthLabel newDate e = k) arr),
      rate = lastRate newDate k arr\<rparr>"

text \<open>What one run of the callback does to the bucket of its label.\<close>

definition touch :: "entry \<Rightarrow> bucket \<Rightarrow> bucket" where
  "touch e b =
     (case entry.rate e of
        None \<Rightarrow> b\<lparr>count := count b + 1\<rparr>
      | Some r \<Rightarrow> if r \<noteq> 0 then b\<lparr>count := count b + 1, rate := r\<rparr>
                  else b\<lparr>count := count b + 1\<rparr>)"

section \<open>Properties of the tab store\<close>

lemma isActive_ctx_iff: "isActive_ctx s v = (v = activeTab s)"
  by (simp add: isActive_ctx_def)

lemma isActive_props_iff: "isActive_props s v = (v = activeTab s)"
  by (auto simp add: isActive_props_def)

lemma activeTab_selects:
  "activeTab (foldl (\<lambda>s x. setActiveTab x s) s (xs @ [x])) = x"
  by (simp add: setActiveTab_def)

text \<open>
  The store alone, with the setter called directly and a panel that is a child of
  \<^verbatim>\<open>Tabs\<close>: after \<open>setActiveTab x\<close> exactly \<open>x\<close> is active, also after any sequence of
  calls ending in \<open>x\<close>; the initial store has exactly the default active; storing the
  same identifier twice gives the state of storing it once.
\<close>

lemma store_select_exactly_one_active:
  "isActive_ctx (setActiveTab x s) y = (y = x)
   \<and> isActive_props (setActiveTab x s) y = (y = x)
   \<and> isActive_ctx (foldl (\<lambda>s x. setActiveTab x s) s (xs @ [x])) y = (y = x)
   \<and> isActive_props (foldl (\<lambda>s x. setActiveTab x s) s (xs @ [x])) y = (y = x)
   \<and> isActive_ctx (useState d) y = (y = d)
   \<and> isActive_props (useState d) y = (y = d)
   \<and> setActiveTab x (setActiveTab x s) = setActiveTab x s"
  unfolding isActive_ctx_iff isActive_props_iff activeTab_selects
  by (simp add: setActiveTab_def useState_def)

text \<open>
  In the context variant every trigger on the page, at any depth, holds the setter: a
  click on the trigger of \<open>x\<close> makes exactly \<open>x\<close> active.
\<close>

lemma render_ctx_setter:
  "n \<in> set (render_ctx s e) \<Longrightarrow> b \<in> set (buttons n) \<Longrightarrow> snd (snd b) = Setter"
  by (induction e arbitrary: n b) (auto split: if_splits)

lemma Tabs_ctx_setter: "b \<in> set (buttons (Tabs_ctx s cs)) \<Longrightarrow> snd (snd b) = Setter"
  by (auto simp add: Tabs_ctx_def dest: render_ctx_setter)

lemma Tabs_ctx_press:
  assumes "x \<in> fst ` set (buttons (Tabs_ctx s cs))"
  shows "press (Tabs_ctx s cs) x s = Inr (setActiveTab x s)"
proof -
  from assms obtain b0 where "b0 \<in> set (buttons (Tabs_ctx s cs))" and "fst b0 = x"
    by auto
  then have "\<exists>b. b \<in> set (buttons (Tabs_ctx s cs)) \<and> fst b = x"
    by blast
  then have "find (\<lambda>b. fst b = x) (buttons (Tabs_ctx s cs)) \<noteq> None"
    by (simp add: find_None_iff)
  then obtain b where f: "find (\<lambda>b. fst b = x) (buttons (Tabs_ctx s cs)) = Some b"
    by blast
  then have "fst b = x" and "b \<in> set (buttons (Tabs_ctx s cs))"
    by (auto simp add: find_Some_iff)
  with Tabs_ctx_setter [of b s cs] obtain sel where "b = (x, sel, Setter)"
    by (cases b) auto
  with f show ?thesis
    by (simp add: press_def)
qed

lemma Tabs_ctx_select:
  "x \<in> fst ` set (buttons (Tabs_ctx s cs)) \<Longrightarrow>
   isActive_ctx (afterClick s (press (Tabs_ctx s cs) x s)) y = (y = x)"
  by (simp add: Tabs_ctx_press afterClick_def isActive_ctx_iff setActiveTab_def)

text \<open>
  C5. On the dashboard's own tab group, in the prop-threading variant, the select of
  \<^verbatim>\<open>inventory\<close> (a click on its trigger) raises and leaves the state as it was: afterwards
  \<^verbatim>\<open>inventory\<close> is not active and \<^verbatim>\<open>orders\<close> still is. In the context variant the same
  select makes \<^verbatim>\<open>inventory\<close> active and \<^verbatim>\<open>orders\<close> inactive.
\<close>

theorem dashboard_select_not_active:
  "afterClick (useState ''orders'')
      (press (Tabs_props (useState ''orders'') dashboard_tabs) ''inventory'' (useState ''orders''))
     = useState ''orders''
   \<and> \<not> isActive_props
        (afterClick (useState ''orders'')
           (press (Tabs_props (useState ''orders'') dashboard_tabs) ''inventory''
              (useState ''orders'')))
        ''inventory''
   \<and> isActive_props
        (afterClick (useState ''orders'')
           (press (Tabs_props (useState ''orders'') dashboard_tabs) ''inventory''
              (useState ''orders'')))
        ''orders''
   \<and> isActive_ctx
        (afterClick (useState ''orders'')
           (press (Tabs_ctx (useState ''orders'') dashboard_tabs) ''inventory''
              (useState ''orders'')))
        ''inventory''
   \<and> \<not> isActive_ctx
        (afterClick (useState ''orders'')
           (press (Tabs_ctx (useState ''orders'') dashboard_tabs) ''inventory''
              (useState ''orders'')))
        ''orders''"
  by (simp add: press_def Tabs_ctx_def Tabs_props_def dashboard_tabs_def useState_def
      setActiveTab_def isActive_ctx_iff isActive_props_iff afterClick_def)

text \<open>
  C8. The setter stores any identifier, known or not, and a click that reaches it
  raises nothing. Afterwards a content panel of any other value renders nothing, in the
  context variant and in the prop-threading variant, whether the panel received the
  props or not.
\<close>

theorem select_never_validates:
  "activeTab (setActiveTab x s) = x
   \<and> onClick (x, sel, Setter) s = Inr (setActiveTab x s)
   \<and> (v \<noteq> x \<longrightarrow>
        render_ctx (setActiveTab x s) (TabsContent v cs) = []
        \<and> render_props (Some (setActiveTab x s)) (TabsContent v cs) = []
        \<and> render_props None (TabsContent v cs) = []
        \<and> \<not> isActive_ctx (setActiveTab x s) v
        \<and> \<not> isActive_props (setActiveTab x s) v)"
  by (simp add: setActiveTab_def isActive_ctx_iff isActive_props_iff)

theorem select_never_validates_witness:
  "activeTab (setActiveTab ''nowhere'' (useState ''orders'')) = ''nowhere''
   \<and> render_ctx (setActiveTab ''nowhere'' (useState ''orders'')) (TabsContent ''orders'' [Host []]) = []
   \<and> render_props (Some (setActiveTab ''nowhere'' (useState ''orders'')))
        (TabsContent ''orders'' [Host []]) = []
   \<and> \<not> isActive_ctx (setActiveTab ''nowhere'' (useState ''orders'')) ''orders''
   \<and> \<not> isActive_props (setActiveTab ''nowhere'' (useState ''orders'')) ''orders''"
proof -
  have "''orders'' \<noteq> ''nowhere''"
    by simp
  with select_never_validates [of "''nowhere''" "useState ''orders''" False "''orders''" "[Host []]"]
  show ?thesis by blast
qed

lemma no_panel_after_unknown_select:
  "Tabs_ctx (setActiveTab ''nowhere'' (useState ''orders'')) dashboard_tabs =
     Div [Div [Button ''orders'' False Setter, Button ''inventory'' False Setter,
               Button ''returns'' False Setter, Button ''analytics'' False Setter]]"
  by (simp add: Tabs_ctx_def dashboard_tabs_def setActiveTab_def useState_def)

text \<open>
  The two variants render the same tree when every trigger and every content panel is
  a child of \<^verbatim>\<open>Tabs\<close> itself.
\<close>

lemma inert_render: "inert e \<Longrightarrow> render_props p e = render_ctx s e"
  by (induction e arbitrary: p) (auto simp add: list_all_iff cong: map_cong)

lemma inert_render_map:
  "list_all inert cs \<Longrightarrow> map (render_props p) cs = map (render_ctx s) cs"
  by (induction cs) (simp_all add: inert_render)

lemma direct_render: "direct e \<Longrightarrow> render_props (Some s) e = render_ctx s e"
  by (cases e) (simp_all add: inert_render_map [where s = s])

lemma variants_agree_on_direct_children:
  "list_all direct cs \<Longrightarrow> Tabs_props s cs = Tabs_ctx s cs"
proof -
  assume "list_all direct cs"
  then have "map (render_props (Some s)) cs = map (render_ctx s) cs"
    by (induction cs) (simp_all add: direct_render)
  then show ?thesis
    by (simp only: Tabs_props_def Tabs_ctx_def)
qed

text \<open>
  C9. On the dashboard's own tab group the two variants differ. In the context variant
  the trigger of the active tab is styled as selected and a click on the
  \<^verbatim>\<open>inventory\<close> trigger makes \<^verbatim>\<open>inventory\<close> the active tab. In the prop-threading variant
  the triggers stand inside \<^verbatim>\<open>TabsList\<close>, receive neither prop, are never styled as
  selected, and the click raises a \<^verbatim>\<open>TypeError\<close>: the active tab stays \<^verbatim>\<open>orders\<close> and
  the \<^verbatim>\<open>inventory\<close> panel stays hidden.
\<close>

theorem dashboard_click_differs:
  "press (Tabs_ctx (useState ''orders'') dashboard_tabs) ''inventory'' (useState ''orders'')
     = Inr \<lparr>activeTab = ''inventory''\<rparr>
   \<and> press (Tabs_props (useState ''orders'') dashboard_tabs) ''inventory'' (useState ''orders'')
     = Inl TypeError
   \<and> buttons (Tabs_ctx (useState ''orders'') dashboard_tabs) =
       [(''orders'', True, Setter), (''inventory'', False, Setter),
        (''returns'', False, Setter), (''analytics'', False, Setter)]
   \<and> buttons (Tabs_props (useState ''orders'') dashboard_tabs) =
       [(''orders'', False, Undefined), (''inventory'', False, Undefined),
        (''returns'', False, Undefined), (''analytics'', False, Undefined)]
   \<and> isActive_ctx \<lparr>activeTab = ''inventory''\<rparr> ''inventory''
   \<and> \<not> isActive_props (useState ''orders'') ''inventory''"
  by (simp add: press_def Tabs_ctx_def Tabs_props_def dashboard_tabs_def useState_def
      setActiveTab_def isActive_ctx_iff isActive_props_iff)

section \<open>Properties of the metrics\<close>

lemma digit_less_10: "d < 10 \<Longrightarrow> d \<in> {0, 1, 2, 3, 4, 5, 6, 7, 8, 9::nat}"
  by auto

lemma digitVal_digitChar: "d < 10 \<Longrightarrow> digitVal (digitChar d) = Some d"
  using digit_less_10 [of d] by (auto simp add: digitVal_def digitChar_def upt_rec)

lemma digitChar_not_dot: "d < 10 \<Longrightarrow> digitChar d \<noteq> CHR ''.''"
  using digit_less_10 [of d] by (auto simp add: digitChar_def)

lemma digitChar_not_minus: "d < 10 \<Longrightarrow> digitChar d \<noteq> CHR ''-''"
  using digit_less_10 [of d] by (auto simp add: digitChar_def)

lemma readNat_append:
  "readNat a (xs @ ys) = (case readNat a xs of None \<Rightarrow> None | Some b \<Rightarrow> readNat b ys)"
  by (induction xs arbitrary: a) (auto split: option.splits)

lemma readNat_decimal: "0 \<le> n \<Longrightarrow> readNat 0 (decimal n) = Some (nat n)"
proof (induction n rule: decimal.induct)
  case (1 n)
  show ?case
  proof (cases "n < 10")
    case True
    with 1(2) have "nat n < 10" by simp
    with True show ?thesis
      by (simp add: decimal.simps [of n] digitVal_digitChar)
  next
    case False
    with 1 have ih: "readNat 0 (decimal (n div 10)) = Some (nat (n div 10))"
      by simp
    have d: "nat (n mod 10) < 10"
      by simp
    have "10 * nat (n div 10) + nat (n mod 10) = nat n"
      using 1(2) by (simp add: nat_div_distrib nat_mod_distrib)
    with False show ?thesis
      by (simp add: decimal.simps [of n] readNat_append ih digitVal_digitChar [OF d])
  qed
qed

lemma decimal_not_Nil: "decimal n \<noteq> []"
  by (simp add: decimal.simps [of n])

lemma decimal_no_dot: "CHR ''.'' \<notin> set (decimal n)"
proof (induction n rule: decimal.induct)
  case (1 n)
  show ?case
  proof (cases "n < 10")
    case True
    then have "nat n < 10" by simp
    from digitChar_not_dot [OF this] True show ?thesis
      by (auto simp add: decimal.simps [of n])
  next
    case False
    with 1 have "CHR ''.'' \<notin> set (decimal (n div 10))" by simp
    moreover have "nat (n mod 10) < 10" by simp
    from digitChar_not_dot [OF this] have "digitChar (nat (n mod 10)) \<noteq> CHR ''.''" .
    ultimately show ?thesis
      using False by (auto simp add: decimal.simps [of n])
  qed
qed

lemma decimal_no_minus: "CHR ''-'' \<notin> set (decimal n)"
proof (induction n rule: decimal.induct)
  case (1 n)
  show ?case
  proof (cases "n < 10")
    case True
    then have "nat n < 10" by simp
    from digitChar_not_minus [OF this] True show ?thesis
      by (auto simp add: decimal.simps [of n])
  next
    case False
    with 1 have "CHR ''-'' \<notin> set (decimal (n div 10))" by simp
    moreover have "nat (n mod 10) < 10" by simp
    from digitChar_not_minus [OF this] have "digitChar (nat (n mod 10)) \<noteq> CHR ''-''" .
    ultimately show ?thesis
      using False by (auto simp add: decimal.simps [of n])
  qed
qed

lemma digitVal_0: "digitVal (CHR ''0'') = Some 0"
  by (simp add: digitVal_def upt_rec)

lemma decimal_0: "decimal 0 = ''0''"
  by (simp add: decimal.simps [of 0] digitChar_def)

lemma decimalValue_point:
  assumes a: "a \<noteq> []" and dot: "CHR ''.'' \<notin> set a" and minus: "CHR ''-'' \<notin> set a"
    and rd: "readNat 0 (a @ [c]) = Some n"
    and sg: "sg = [] \<or> sg = ''-''"
  shows "decimalValue (sg @ a @ ''.'' @ [c]) =
           Some ((if sg = [] then 1 else - 1) * (of_nat n / 10))"
proof -
  from rd obtain q d where q: "readNat 0 a = Some q" and d: "digitVal c = Some d"
    and n: "n = 10 * q + d"
    by (auto simp add: readNat_append split: option.splits)
  from a minus obtain h t where ht: "a = h # t" and h: "h \<noteq> CHR ''-''"
    by (cases a) auto
  have tw: "takeWhile (\<lambda>c. c \<noteq> CHR ''.'') (a @ ''.'' @ [c]) = a"
    using dot by (auto simp add: takeWhile_tail)
  have val: "(of_nat n :: rat) / 10 = of_nat q + of_nat d / 10"
    by (simp add: n)
  from sg show ?thesis
  proof
    assume "sg = []"
    then show ?thesis
      using tw q h by (simp add: decimalValue_def Let_def d val ht)
  next
    assume "sg = ''-''"
    then show ?thesis
      using tw q by (simp add: decimalValue_def Let_def d val ht)
  qed
qed

lemma readNat_Some_digits: "readNat k xs = Some n \<Longrightarrow> list_all isDigit xs"
  by (induction xs arbitrary: k) (auto simp add: isDigit_def split: option.splits)

lemma oneDecimal_point:
  assumes a: "a \<noteq> []" and minus: "CHR ''-'' \<notin> set a"
    and rd: "readNat 0 (a @ [c]) = Some n"
    and sg: "sg = [] \<or> sg = ''-''"
  shows "oneDecimal (sg @ a @ ''.'' @ [c])"
proof -
  from readNat_Some_digits [OF rd] have dig: "list_all isDigit a" "isDigit c"
    by simp_all
  from a minus obtain h t where ht: "a = h # t" and h: "h \<noteq> CHR ''-''"
    by (cases a) auto
  from sg show ?thesis
  proof
    assume "sg = []"
    then show ?thesis
      using dig h by (simp add: oneDecimal_def Let_def ht nth_append)
  next
    assume "sg = ''-''"
    then show ?thesis
      using dig by (simp add: oneDecimal_def Let_def ht nth_append)
  qed
qed

lemma fixedDigits1_shape:
  assumes "0 \<le> a"
  shows "\<exists>ys c. fixedDigits a 1 = ys @ ''.'' @ [c] \<and> ys \<noteq> [] \<and> CHR ''.'' \<notin> set ys
           \<and> CHR ''-'' \<notin> set ys \<and> readNat 0 (ys @ [c]) = Some (nat \<lfloor>a * 10 + 1 / 2\<rfloor>)"
proof -
  define n where "n = \<lfloor>a * 10 + 1 / 2\<rfloor>"
  define m1 where "m1 = (if length (decimal n) \<le> 1 then CHR ''0'' # decimal n else decimal n)"
  have n0: "0 \<le> n"
    using assms by (simp add: n_def)
  have m0: "(if n = 0 then ''0'' else decimal n) = decimal n"
    by (simp add: decimal_0)
  have tf: "fixedDigits a 1 = take (length m1 - 1) m1 @ ''.'' @ drop (length m1 - 1) m1"
  proof (cases "length (decimal n) \<le> 1")
    case True
    with decimal_not_Nil [of n] obtain c where c: "decimal n = [c]"
      by (cases "decimal n") auto
    then show ?thesis
      by (simp add: fixedDigits_def Let_def m0 n_def [symmetric] m1_def)
  next
    case False
    then show ?thesis
      by (simp add: fixedDigits_def Let_def m0 n_def [symmetric] m1_def)
  qed
  have len: "2 \<le> length m1"
    using decimal_not_Nil [of n] by (cases "decimal n") (auto simp add: m1_def Suc_le_eq)
  have rd: "readNat 0 m1 = Some (nat n)"
    using n0 by (simp add: m1_def readNat_decimal digitVal_0)
  have nd: "CHR ''.'' \<notin> set m1" and nm: "CHR ''-'' \<notin> set m1"
    using decimal_no_dot [of n] decimal_no_minus [of n] by (auto simp add: m1_def)
  from len obtain ys y where m1: "m1 = ys @ [y]" and ys: "ys \<noteq> []"
    by (cases m1 rule: rev_cases) (auto simp add: Suc_le_eq)
  have "fixedDigits a 1 = ys @ ''.'' @ [y]"
    unfolding tf by (simp add: m1)
  moreover have "CHR ''.'' \<notin> set ys" "CHR ''-'' \<notin> set ys"
    using nd nm by (auto simp add: m1)
  moreover have "readNat 0 (ys @ [y]) = Some (nat n)"
    using rd by (simp add: m1)
  ultimately show ?thesis
    using ys unfolding n_def by blast
qed

lemma fixedDigits1_reads:
  assumes "0 \<le> a" and sg: "sg = [] \<or> sg = ''-''"
  shows "oneDecimal (sg @ fixedDigits a 1)
    \<and> decimalValue (sg @ fixedDigits a 1) =
        Some ((if sg = [] then 1 else - 1) * (of_int \<lfloor>a * 10 + 1 / 2\<rfloor> / 10))"
proof -
  from fixedDigits1_shape [OF assms(1)] obtain ys c where
    tf: "fixedDigits a 1 = ys @ ''.'' @ [c]" and ys: "ys \<noteq> []" "CHR ''.'' \<notin> set ys"
      "CHR ''-'' \<notin> set ys" and rd: "readNat 0 (ys @ [c]) = Some (nat \<lfloor>a * 10 + 1 / 2\<rfloor>)"
    by blast
  have "0 \<le> \<lfloor>a * 10 + 1 / 2\<rfloor>"
    using assms(1) by simp
  then have "(of_nat (nat \<lfloor>a * 10 + 1 / 2\<rfloor>) :: rat) = of_int \<lfloor>a * 10 + 1 / 2\<rfloor>"
    by simp
  with decimalValue_point [OF ys rd sg] oneDecimal_point [OF ys(1) ys(3) rd sg]
  show ?thesis
    unfolding tf by simp
qed

lemma toFixed1_finite:
  assumes "finiteValue x = Some r" and "\<bar>r\<bar> < 10 ^ 21"
  shows "oneDecimal (toFixed x 1) \<and> decimalValue (toFixed x 1) = Some (roundOneDecimal r)"
proof (cases x)
  case NegZero
  with assms(1) have r: "r = 0"
    by (simp add: finiteValue_def)
  from fixedDigits1_reads [of 0 "[]"] show ?thesis
    by (simp add: NegZero toFixed_def r roundOneDecimal_def)
next
  case (Fin q)
  with assms(1) have q: "q = r"
    by (simp add: finiteValue_def)
  show ?thesis
  proof (cases "r < 0")
    case True
    with assms(2) have "0 \<le> - r" "\<not> 10 ^ 21 \<le> - r" by auto
    with fixedDigits1_reads [of "- r" "''-''"] True show ?thesis
      by (simp add: Fin q toFixed_def Let_def roundOneDecimal_def)
  next
    case False
    with assms(2) have "0 \<le> r" "\<not> 10 ^ 21 \<le> r" by auto
    with fixedDigits1_reads [of r "[]"] False show ?thesis
      by (simp add: Fin q toFixed_def Let_def roundOneDecimal_def)
  qed
qed (use assms(1) in \<open>simp_all add: finiteValue_def\<close>)

lemma oneDecimal_chars:
  assumes "oneDecimal s" and "c \<in> set s"
  shows "isDigit c \<or> c = CHR ''.'' \<or> c = CHR ''-''"
proof -
  define u where "u = (if take 1 s = ''-'' then drop 1 s else s)"
  from assms(1) have od: "3 \<le> length u \<and> list_all isDigit (take (length u - 2) u)
      \<and> u ! (length u - 2) = CHR ''.'' \<and> isDigit (last u)"
    unfolding oneDecimal_def Let_def u_def .
  then have "3 \<le> length u" by simp
  then obtain ys y where u1: "u = ys @ [y]" and "2 \<le> length ys"
    by (cases u rule: rev_cases) auto
  then obtain zs z where u2: "ys = zs @ [z]"
    by (cases ys rule: rev_cases) auto
  from od have "list_all isDigit zs" "z = CHR ''.''" "isDigit y"
    by (simp_all add: u1 u2 nth_append)
  then have uc: "\<And>c. c \<in> set u \<Longrightarrow> isDigit c \<or> c = CHR ''.''"
    by (auto simp add: u1 u2 list_all_iff)
  have "set s \<subseteq> insert (CHR ''-'') (set u)"
  proof (cases "take 1 s = ''-''")
    case True
    then have "s = CHR ''-'' # drop 1 s"
      by (cases s) auto
    then have "set s = insert (CHR ''-'') (set (drop 1 s))"
      by (metis list.simps(15))
    with True show ?thesis by (simp add: u_def)
  next
    case False
    then show ?thesis by (auto simp add: u_def)
  qed
  with assms(2) uc show ?thesis by auto
qed

lemma isDigit_e: "\<not> isDigit (CHR ''e'')"
  by (simp add: isDigit_def digitVal_def upt_rec)

lemma toStringLarge_e: "CHR ''e'' \<in> set (toStringLarge a)"
  by (simp add: toStringLarge_def Let_def)

lemma toFixed1_large:
  assumes "10 ^ 21 \<le> \<bar>r\<bar>"
  shows "\<not> oneDecimal (toFixed (Fin r) 1)"
proof
  assume od: "oneDecimal (toFixed (Fin r) 1)"
  have "CHR ''e'' \<in> set (toFixed (Fin r) 1)"
    using assms toStringLarge_e [of "\<bar>r\<bar>"]
    by (auto simp add: toFixed_def Let_def abs_if split: if_splits)
  from oneDecimal_chars [OF od this] show False
    by (simp add: isDigit_e)
qed

lemma toFixed1_oneDecimal_iff:
  "oneDecimal (toFixed x 1) =
     (case finiteValue x of None \<Rightarrow> False | Some r \<Rightarrow> \<bar>r\<bar> < 10 ^ 21)"
proof (cases "finiteValue x")
  case None
  then have "x = NaN \<or> x = PosInf \<or> x = NegInf"
    by (cases x) (simp_all add: finiteValue_def)
  then have "\<not> oneDecimal (toFixed x 1)"
    by (auto simp add: toFixed_def oneDecimal_def Let_def isDigit_def digitVal_def upt_rec)
  with None show ?thesis by simp
next
  case (Some r)
  show ?thesis
  proof (cases "\<bar>r\<bar> < 10 ^ 21")
    case True
    with toFixed1_finite [OF Some] Some show ?thesis by simp
  next
    case False
    then have big: "10 ^ 21 \<le> \<bar>r\<bar>" by simp
    then have "r \<noteq> 0" by auto
    with Some have "x = Fin r"
      by (cases x) (simp_all add: finiteValue_def)
    with toFixed1_large [OF big] False Some show ?thesis by simp
  qed
qed

lemma roundOneDecimal_close: "\<bar>roundOneDecimal x - x\<bar> \<le> 1 / 20"
proof -
  have fl: "\<bar>of_int \<lfloor>y + 1 / 2\<rfloor> - y\<bar> \<le> 1 / 2" for y :: rat
    by linarith
  show ?thesis
  proof (cases "x < 0")
    case True
    define k :: rat where "k = of_int \<lfloor>- x * 10 + 1 / 2\<rfloor>"
    have "\<bar>k - (- x * 10)\<bar> \<le> 1 / 2"
      unfolding k_def by (rule fl)
    moreover have "roundOneDecimal x = - (k / 10)"
      using True by (simp only: roundOneDecimal_def k_def if_True)
    ultimately show ?thesis by linarith
  next
    case False
    define k :: rat where "k = of_int \<lfloor>x * 10 + 1 / 2\<rfloor>"
    have "\<bar>k - x * 10\<bar> \<le> 1 / 2"
      unfolding k_def by (rule fl)
    moreover have "roundOneDecimal x = k / 10"
      using False by (simp only: roundOneDecimal_def k_def if_False)
    ultimately show ?thesis by linarith
  qed
qed

text \<open>Evaluating the rounding and the digits of given numbers.\<close>

lemma floor_rat_numeral: "\<lfloor>(numeral a :: rat) / numeral b\<rfloor> = numeral a div numeral b"
  using floor_divide_of_int_eq [of "numeral a" "numeral b", where ?'a = rat] by simp

lemma ceiling_rat_numeral: "\<lceil>(numeral a :: rat) / numeral b\<rceil> = - (- numeral a div numeral b)"
  using floor_divide_of_int_eq [of "- numeral a" "numeral b", where ?'a = rat]
  by (simp add: ceiling_def)

lemma floor_rat_one: "\<lfloor>(1 :: rat) / numeral b\<rfloor> = 1 div numeral b"
  using floor_divide_of_int_eq [of 1 "numeral b", where ?'a = rat] by simp

lemmas number_eval =
  fl_def roundMagnitude_def floorlog2_def pow2_def roundHalfEven_def bitlen.simps Let_def
  floor_rat_numeral floor_rat_one ceiling_rat_numeral signedZero_def signedInfinity_def fmul_def fdiv_def fadd_def
  finiteValue_def isNegative_def isZero_def

lemma fl_examples:
  "fl (1 / 10) = Fin (3602879701896397 / 36028797018963968)"
  "fl 9007199254740993 = Fin 9007199254740992"
  "fl 9007199254740995 = Fin 9007199254740996"
  "fl (- (1 / 3)) = Fin (- (6004799503160661 / 18014398509481984))"
  by (simp_all add: number_eval)

lemma fl_extremes:
  "fl (2 ^ 1024 - 2 ^ 970) = PosInf"
  "fl (- (1 / 2 ^ 1075)) = NegZero"
  by (simp_all add: number_eval)

lemmas string_eval =
  toFixed_def fixedDigits_def Let_def floor_rat_numeral decimal.simps digitChar_def

lemma percentage_examples:
  "percentage (Fin 0) (Fin 0) = JNum (Fin 0)"
  "percentage (Fin 5) (Fin 20) = JStr ''25.0''"
  "percentage (Fin 1) (Fin 3) = JStr ''33.3''"
  "percentage (Fin 23) (Fin 80) = JStr ''28.7''"
  by (simp_all add: percentage_def number_eval string_eval)

lemma percentage_23_80:
  "fmul (fdiv (Fin 23) (Fin 80)) (Fin 100) = Fin (8092405580431359 / 281474976710656)"
  by (simp add: number_eval)

lemma fadd_examples:
  "fadd (Fin 0) (Fin 3) = Fin 3" "fadd (Fin 3) (Fin 0) = Fin 3"
  "fadd (Fin 0) (Fin 2) = Fin 2" "fadd (Fin 2) (Fin 4) = Fin 6" "fadd (Fin 6) (Fin 6) = Fin 12"
  by (simp_all add: number_eval)

lemma fdiv_3_20: "fdiv (Fin 3) (Fin 20) = Fin (5404319552844595 / 36028797018963968)"
  by (simp add: number_eval)

lemma averageHours_examples:
  "averageHours [] = JNum (Fin 0)"
  "averageHours [Fin 2, Fin 4, Fin 6] = JStr ''4.0''"
  "averageHours [Fin 3, Fin 0, Fin 0, Fin 0, Fin 0, Fin 0, Fin 0, Fin 0, Fin 0, Fin 0,
                 Fin 0, Fin 0, Fin 0, Fin 0, Fin 0, Fin 0, Fin 0, Fin 0, Fin 0, Fin 0] = JStr ''0.1''"
  by (simp_all add: averageHours_def fadd_examples) (simp_all add: number_eval string_eval)

lemma fl_1e21: "fl 1000000000000000000000 = Fin 1000000000000000000000"
  by (simp add: number_eval)

lemma decimal_1e21: "decimal 1000000000000000000000 = ''1000000000000000000000''"
  by (simp add: decimal.simps digitChar_def)

lemma decimal_21: "decimal 21 = ''21''"
  by (simp add: decimal.simps digitChar_def)

lemma shortest_1e21: "shortest 1000000000000000000000 21 = 1000000000000000000000"
  using shortest.simps(2) [of 1000000000000000000000 20]
  by (simp add: Let_def floor_rat_numeral fl_1e21)

lemma toStringLarge_1e21: "toStringLarge 1000000000000000000000 = ''1e+21''"
proof -
  have len: "length ''1000000000000000000000'' - 1 = 21"
    by simp
  show ?thesis
    unfolding toStringLarge_def Let_def floor_numeral decimal_1e21 len shortest_1e21
    by (simp add: stripZeros_def decimal_21)
qed

lemma percentage_1e19:
  "fmul (fdiv (Fin 10000000000000000000) (Fin 1)) (Fin 100) = Fin 1000000000000000000000"
  by (simp add: number_eval)

lemma exponent_examples:
  "percentage (Fin 10000000000000000000) (Fin 1) = JStr ''1e+21''"
  "averageHours [Fin 1000000000000000000000] = JStr ''1e+21''"
  "percentage (Fin 1) NaN = JStr ''NaN''"
  "\<not> oneDecimal ''1e+21''"
proof -
  show "percentage (Fin 10000000000000000000) (Fin 1) = JStr ''1e+21''"
    by (simp add: percentage_def percentage_1e19 isZero_def toFixed_def toStringLarge_1e21)
  have "fdiv (fadd (Fin 0) (Fin 1000000000000000000000)) (Fin 1) = Fin 1000000000000000000000"
    by (simp add: number_eval)
  then show "averageHours [Fin 1000000000000000000000] = JStr ''1e+21''"
    by (simp add: averageHours_def toFixed_def toStringLarge_1e21)
  show "percentage (Fin 1) NaN = JStr ''NaN''"
    by (simp add: percentage_def isZero_def fmul_def fdiv_def toFixed_def)
  show "\<not> oneDecimal ''1e+21''"
    by (simp add: oneDecimal_def isDigit_def digitVal_def upt_rec)
qed

text \<open>
  C1. \<open>percentage\<close> returns the number \<open>0\<close> when the total is a zero. Otherwise it
  returns a string and not a number: the \<^verbatim>\<open>toFixed(1)\<close> rendering of the binary64 value
  \<open>q\<close> of \<open>(part / total) * 100\<close>. When \<open>q\<close> is finite and below \<open>10^21\<close> in magnitude,
  the string is in one-decimal notation and denotes \<open>q\<close> rounded to one decimal place,
  which is within one twentieth of \<open>q\<close>.
\<close>

theorem percentage_rounds_binary64:
  "(isZero total' \<longrightarrow> percentage part total' = JNum (Fin 0))
   \<and> (\<not> isZero total' \<longrightarrow>
        percentage part total' = JStr (toFixed (fmul (fdiv part total') (Fin 100)) 1)
        \<and> (finiteValue (fmul (fdiv part total') (Fin 100)) = Some q \<longrightarrow> \<bar>q\<bar> < 10 ^ 21 \<longrightarrow>
             oneDecimal (toFixed (fmul (fdiv part total') (Fin 100)) 1)
             \<and> decimalValue (toFixed (fmul (fdiv part total') (Fin 100)) 1)
                 = Some (roundOneDecimal q)
             \<and> \<bar>roundOneDecimal q - q\<bar> \<le> 1 / 20))"
  using toFixed1_finite [of "fmul (fdiv part total') (Fin 100)" q] roundOneDecimal_close [of q]
  by (simp add: percentage_def)

theorem percentage_rounds_binary64_witness:
  "percentage (Fin 0) (Fin 0) = JNum (Fin 0)
   \<and> percentage (Fin 23) (Fin 80) = JStr ''28.7''
   \<and> oneDecimal ''28.7''
   \<and> decimalValue ''28.7'' = Some (roundOneDecimal (8092405580431359 / 281474976710656))
   \<and> percentage (Fin 1) (Fin 3) = JStr ''33.3''"
proof -
  have z: "isZero (Fin 0)" and n: "\<not> isZero (Fin 80)"
    by (simp_all add: isZero_def)
  have q: "finiteValue (fmul (fdiv (Fin 23) (Fin 80)) (Fin 100))
      = Some (8092405580431359 / 281474976710656)"
    by (simp add: percentage_23_80 finiteValue_def)
  have b: "\<bar>8092405580431359 / 281474976710656 :: rat\<bar> < 10 ^ 21"
    by simp
  from percentage_rounds_binary64 [of "Fin 0" "Fin 0"] z
  have "percentage (Fin 0) (Fin 0) = JNum (Fin 0)"
    by blast
  moreover from percentage_rounds_binary64
    [of "Fin 80" "Fin 23" "8092405580431359 / 281474976710656"] n q b
  have "percentage (Fin 23) (Fin 80) = JStr (toFixed (fmul (fdiv (Fin 23) (Fin 80)) (Fin 100)) 1)
    \<and> oneDecimal (toFixed (fmul (fdiv (Fin 23) (Fin 80)) (Fin 100)) 1)
    \<and> decimalValue (toFixed (fmul (fdiv (Fin 23) (Fin 80)) (Fin 100)) 1)
        = Some (roundOneDecimal (8092405580431359 / 281474976710656))"
    by blast
  ultimately show ?thesis
    by (simp add: percentage_examples)
qed

theorem percentage_returns_string:
  "percentage (Fin 5) (Fin 20) = JStr ''25.0''
   \<and> percentage (Fin 5) (Fin 20) \<noteq> JNum (Fin 25)
   \<and> typeof (percentage (Fin 5) (Fin 20)) = ''string''
   \<and> percentage (Fin 23) (Fin 80) = JStr ''28.7''
   \<and> decimalValue ''28.7'' = Some (287 / 10)
   \<and> roundOneDecimal (23 / 80 * 100) = 288 / 10"
  by (simp add: percentage_examples typeof_def roundOneDecimal_def floor_rat_numeral
      decimalValue_def digitVal_def upt_rec)

text \<open>
  C6. \<open>averageHours\<close> returns the number \<open>0\<close> for the empty sequence. Otherwise it
  returns a string and not a number: the \<^verbatim>\<open>toFixed(1)\<close> rendering of the binary64 value
  \<open>q\<close> of the running sum divided by the length. When \<open>q\<close> is finite and below \<open>10^21\<close> in
  magnitude, the string is in one-decimal notation and denotes \<open>q\<close> rounded to one
  decimal place, which is within one twentieth of \<open>q\<close>.
\<close>

theorem averageHours_rounds_binary64:
  "averageHours [] = JNum (Fin 0)
   \<and> (arr \<noteq> [] \<longrightarrow>
        averageHours arr =
          JStr (toFixed (fdiv (foldl (\<lambda>a b. fadd a b) (Fin 0) arr) (Fin (of_nat (length arr)))) 1)
        \<and> (finiteValue (fdiv (foldl (\<lambda>a b. fadd a b) (Fin 0) arr) (Fin (of_nat (length arr))))
              = Some q \<longrightarrow> \<bar>q\<bar> < 10 ^ 21 \<longrightarrow>
             oneDecimal (toFixed (fdiv (foldl (\<lambda>a b. fadd a b) (Fin 0) arr)
                                       (Fin (of_nat (length arr)))) 1)
             \<and> decimalValue (toFixed (fdiv (foldl (\<lambda>a b. fadd a b) (Fin 0) arr)
                                            (Fin (of_nat (length arr)))) 1)
                 = Some (roundOneDecimal q)
             \<and> \<bar>roundOneDecimal q - q\<bar> \<le> 1 / 20))"
  using toFixed1_finite
    [of "fdiv (foldl (\<lambda>a b. fadd a b) (Fin 0) arr) (Fin (of_nat (length arr)))" q]
    roundOneDecimal_close [of q]
  by (simp add: averageHours_def)

theorem averageHours_rounds_binary64_witness:
  "averageHours [] = JNum (Fin 0)
   \<and> averageHours [Fin 2, Fin 4, Fin 6] = JStr ''4.0''
   \<and> oneDecimal ''4.0''
   \<and> decimalValue ''4.0'' = Some (roundOneDecimal 4)"
proof -
  have ne: "[Fin 2, Fin 4, Fin 6] \<noteq> []"
    by simp
  have "fdiv (Fin 12) (Fin 3) = Fin 4"
    by (simp add: number_eval)
  then have q: "finiteValue (fdiv (foldl (\<lambda>a b. fadd a b) (Fin 0) [Fin 2, Fin 4, Fin 6])
      (Fin (of_nat (length [Fin 2, Fin 4, Fin 6])))) = Some 4"
    by (simp add: fadd_examples finiteValue_def)
  have b: "\<bar>4 :: rat\<bar> < 10 ^ 21"
    by simp
  from averageHours_rounds_binary64 [of "[Fin 2, Fin 4, Fin 6]" 4] ne q b
  have "averageHours [] = JNum (Fin 0)
    \<and> averageHours [Fin 2, Fin 4, Fin 6] =
        JStr (toFixed (fdiv (foldl (\<lambda>a b. fadd a b) (Fin 0) [Fin 2, Fin 4, Fin 6])
          (Fin (of_nat (length [Fin 2, Fin 4, Fin 6])))) 1)
    \<and> oneDecimal (toFixed (fdiv (foldl (\<lambda>a b. fadd a b) (Fin 0) [Fin 2, Fin 4, Fin 6])
          (Fin (of_nat (length [Fin 2, Fin 4, Fin 6])))) 1)
    \<and> decimalValue (toFixed (fdiv (foldl (\<lambda>a b. fadd a b) (Fin 0) [Fin 2, Fin 4, Fin 6])
          (Fin (of_nat (length [Fin 2, Fin 4, Fin 6])))) 1) = Some (roundOneDecimal 4)"
    by blast
  then show ?thesis
    using averageHours_examples(2) by (simp del: foldl.simps One_nat_def length_Cons list.size)
qed

theorem averageHours_returns_string:
  "averageHours [Fin 2, Fin 4, Fin 6] = JStr ''4.0''
   \<and> averageHours [Fin 2, Fin 4, Fin 6] \<noteq> JNum (Fin 4)
   \<and> typeof (averageHours [Fin 2, Fin 4, Fin 6]) = ''string''
   \<and> averageHours [Fin 3, Fin 0, Fin 0, Fin 0, Fin 0, Fin 0, Fin 0, Fin 0, Fin 0, Fin 0,
                    Fin 0, Fin 0, Fin 0, Fin 0, Fin 0, Fin 0, Fin 0, Fin 0, Fin 0, Fin 0]
       = JStr ''0.1''
   \<and> decimalValue ''0.1'' = Some (1 / 10)
   \<and> roundOneDecimal (mean [3, 0, 0, 0, 0, 0, 0, 0, 0, 0, 0, 0, 0, 0, 0, 0, 0, 0, 0, 0]) = 2 / 10"
  by (simp add: averageHours_examples typeof_def roundOneDecimal_def mean_def floor_rat_numeral
      decimalValue_def digitVal_def upt_rec)

text \<open>
  C10. For a total that is not a zero, \<open>percentage\<close> returns a string, the
  \<^verbatim>\<open>toFixed(1)\<close> rendering of the binary64 value of \<open>(part / total) * 100\<close>, and for a zero
  total the number \<open>0\<close>; \<open>averageHours\<close> returns the \<^verbatim>\<open>toFixed(1)\<close> rendering of the
  binary64 mean for a sequence that is not empty, and the number \<open>0\<close> for the empty one.
  The type of the result differs between the two branches. The rendering of a number is
  in one-decimal notation exactly when the number is finite and below \<open>10^21\<close> in
  magnitude, and it then denotes the number rounded to one decimal place.
\<close>

theorem result_type_differs:
  "(\<not> isZero total' \<longrightarrow>
      percentage part total' = JStr (toFixed (fmul (fdiv part total') (Fin 100)) 1)
      \<and> typeof (percentage part total') = ''string'')
   \<and> (isZero total' \<longrightarrow>
      percentage part total' = JNum (Fin 0) \<and> typeof (percentage part total') = ''number'')
   \<and> (arr \<noteq> [] \<longrightarrow>
      averageHours arr =
        JStr (toFixed (fdiv (foldl (\<lambda>a b. fadd a b) (Fin 0) arr) (Fin (of_nat (length arr)))) 1)
      \<and> typeof (averageHours arr) = ''string'')
   \<and> averageHours [] = JNum (Fin 0)
   \<and> typeof (averageHours []) = ''number''
   \<and> oneDecimal (toFixed x 1) =
        (case finiteValue x of None \<Rightarrow> False | Some r \<Rightarrow> \<bar>r\<bar> < 10 ^ 21)
   \<and> (finiteValue x = Some r \<longrightarrow> \<bar>r\<bar> < 10 ^ 21 \<longrightarrow>
        decimalValue (toFixed x 1) = Some (roundOneDecimal r))"
  using toFixed1_finite [of x r] toFixed1_oneDecimal_iff [of x]
  by (simp add: percentage_def averageHours_def typeof_def)

theorem result_type_differs_witness:
  "typeof (percentage (Fin 1) (Fin 4)) = ''string''
   \<and> typeof (percentage (Fin 1) NegZero) = ''number''
   \<and> typeof (averageHours [Fin 3, Fin 4]) = ''string''
   \<and> typeof (averageHours []) = ''number''
   \<and> oneDecimal (toFixed (Fin (7 / 2)) 1)
   \<and> decimalValue (toFixed (Fin (7 / 2)) 1) = Some (roundOneDecimal (7 / 2))"
proof -
  have h: "\<not> isZero (Fin 4)" "isZero NegZero" "[Fin 3, Fin 4] \<noteq> []"
    "finiteValue (Fin (7 / 2)) = Some (7 / 2)" "\<bar>7 / 2 :: rat\<bar> < 10 ^ 21"
    by (simp_all add: isZero_def finiteValue_def)
  note t = result_type_differs [of "Fin 4" "Fin 1" "[Fin 3, Fin 4]" "Fin (7 / 2)" "7 / 2"]
  from t h(1) have a: "typeof (percentage (Fin 1) (Fin 4)) = ''string''"
    by blast
  from t h(3) have b: "typeof (averageHours [Fin 3, Fin 4]) = ''string''"
    by blast
  from t have c: "typeof (averageHours []) = ''number''"
    by blast
  from t have "oneDecimal (toFixed (Fin (7 / 2)) 1) =
      (case finiteValue (Fin (7 / 2)) of None \<Rightarrow> False | Some r \<Rightarrow> \<bar>r\<bar> < 10 ^ 21)"
    by blast
  with h(4) have d: "oneDecimal (toFixed (Fin (7 / 2)) 1)"
    by simp
  from t h(4) h(5) have e: "decimalValue (toFixed (Fin (7 / 2)) 1) = Some (roundOneDecimal (7 / 2))"
    by blast
  from result_type_differs [of NegZero "Fin 1"] h(2)
  have "typeof (percentage (Fin 1) NegZero) = ''number''"
    by blast
  with a b c d e show ?thesis by blast
qed

theorem some_result_not_one_decimal:
  "percentage (Fin 10000000000000000000) (Fin 1) = JStr ''1e+21''
   \<and> averageHours [Fin 1000000000000000000000] = JStr ''1e+21''
   \<and> \<not> oneDecimal ''1e+21''
   \<and> percentage (Fin 1) NaN = JStr ''NaN''
   \<and> \<not> oneDecimal ''NaN''"
  by (simp add: exponent_examples) (simp add: oneDecimal_def isDigit_def digitVal_def upt_rec)

section \<open>Properties of the aggregation\<close>

lemma first_occurrences_set [simp]: "set (first_occurrences xs) = set xs"
  by (induction xs rule: first_occurrences.induct) auto

lemma first_occurrences_distinct [simp]: "distinct (first_occurrences xs)"
  by (induction xs rule: first_occurrences.induct) auto

lemma first_occurrences_snoc:
  "first_occurrences (xs @ [a]) =
     (if a \<in> set xs then first_occurrences xs else first_occurrences xs @ [a])"
  by (induction xs rule: first_occurrences.induct) auto

lemma map_entry_keyed:
  "distinct ks \<Longrightarrow>
   AList.map_entry k f (map (\<lambda>x. (x, g x)) ks) = map (\<lambda>x. (x, if x = k then f (g x) else g x)) ks"
  by (induction ks) auto

lemma map_of_keyed: "map_of (map (\<lambda>x. (x, g x)) ks) k = (if k \<in> set ks then Some (g k) else None)"
  by (induction ks) auto

lemma map_entry_fresh:
  "k \<notin> fst ` set xs \<Longrightarrow> AList.map_entry k f (xs @ [(k, v)]) = xs @ [(k, f v)]"
  by (induction xs) auto

lemma bucketOf_snoc:
  "bucketOf newDate (xs @ [e]) k =
     (if monthLabel newDate e = k then touch e (bucketOf newDate xs k)
      else bucketOf newDate xs k)"
  by (simp add: bucketOf_def lastRate_def carriesRate_def touch_def split: option.splits)

lemma bucketOf_fresh:
  "k \<notin> monthLabel newDate ` set xs \<Longrightarrow>
   bucketOf newDate xs k = \<lparr>month = k, count = 0, rate = 0\<rparr>"
proof -
  assume "k \<notin> monthLabel newDate ` set xs"
  then have "filter (\<lambda>e. monthLabel newDate e = k) xs = []"
    and "filter (\<lambda>e. monthLabel newDate e = k \<and> carriesRate e) xs = []"
    by (auto simp add: filter_empty_conv)
  then show ?thesis
    by (simp add: bucketOf_def lastRate_def)
qed

lemma forEach_body_present:
  assumes d: "distinct ks" and k: "monthLabel newDate e \<in> set ks"
  shows "forEach_body newDate (map (\<lambda>k. (k, g k)) ks) e =
           map (\<lambda>k. (k, if k = monthLabel newDate e then touch e (g k) else g k)) ks"
  using k
  by (cases "entry.rate e")
     (simp_all add: forEach_body_def Let_def map_of_keyed map_entry_keyed [OF d] touch_def
        cong: map_cong)

lemma forEach_body_absent:
  assumes k: "monthLabel newDate e \<notin> set ks"
  shows "forEach_body newDate (map (\<lambda>k. (k, g k)) ks) e =
           map (\<lambda>k. (k, g k)) ks
           @ [(monthLabel newDate e,
               touch e \<lparr>month = monthLabel newDate e, count = 0, rate = 0\<rparr>)]"
proof -
  have fresh: "monthLabel newDate e \<notin> fst ` set (map (\<lambda>k. (k, g k)) ks)"
    using k by (auto simp add: image_iff)
  show ?thesis
    using k
    by (cases "entry.rate e")
       (simp_all add: forEach_body_def Let_def map_of_keyed map_entry_fresh [OF fresh]
          touch_def)
qed

lemma foldl_forEach_body:
  "foldl (forEach_body newDate) [] arr =
     map (\<lambda>k. (k, bucketOf newDate arr k)) (first_occurrences (map (monthLabel newDate) arr))"
proof (induction arr rule: rev_induct)
  case Nil
  show ?case by simp
next
  case (snoc e xs)
  let ?ks = "first_occurrences (map (monthLabel newDate) xs)"
  let ?mon = "monthLabel newDate e"
  show ?case
  proof (cases "?mon \<in> set ?ks")
    case True
    have "forEach_body newDate (map (\<lambda>k. (k, bucketOf newDate xs k)) ?ks) e =
            map (\<lambda>k. (k, bucketOf newDate (xs @ [e]) k)) ?ks"
      by (simp add: forEach_body_present [OF _ True] bucketOf_snoc eq_commute cong: if_cong)
    with True show ?thesis
      by (simp add: snoc.IH first_occurrences_snoc)
  next
    case False
    then have fresh: "?mon \<notin> monthLabel newDate ` set xs"
      by simp
    have old: "map (\<lambda>k. (k, bucketOf newDate xs k)) ?ks =
               map (\<lambda>k. (k, bucketOf newDate (xs @ [e]) k)) ?ks"
      using False by (auto simp add: bucketOf_snoc)
    have new: "touch e \<lparr>month = ?mon, count = 0, rate = 0\<rparr> = bucketOf newDate (xs @ [e]) ?mon"
      by (simp add: bucketOf_snoc bucketOf_fresh [OF fresh])
    have "foldl (forEach_body newDate) [] (xs @ [e]) =
            forEach_body newDate (map (\<lambda>k. (k, bucketOf newDate xs k)) ?ks) e"
      by (simp add: snoc.IH)
    also have "\<dots> = map (\<lambda>k. (k, bucketOf newDate xs k)) ?ks
                     @ [(?mon, touch e \<lparr>month = ?mon, count = 0, rate = 0\<rparr>)]"
      by (rule forEach_body_absent [OF False])
    also have "\<dots> = map (\<lambda>k. (k, bucketOf newDate (xs @ [e]) k)) (?ks @ [?mon])"
      by (simp only: old new) simp
    also have "?ks @ [?mon] = first_occurrences (map (monthLabel newDate) (xs @ [e]))"
      using False by (simp add: first_occurrences_snoc)
    finally show ?thesis .
  qed
qed

lemma month_bucketOf: "month (bucketOf newDate arr k) = k"
  by (simp add: bucketOf_def)

lemma aggregateMonthly_closed_form:
  "aggregateMonthly newDate arr =
     map (bucketOf newDate arr) (first_occurrences (map (monthLabel newDate) arr))"
  by (simp add: aggregateMonthly_def foldl_forEach_body comp_def)

lemma months_aggregateMonthly:
  "map month (aggregateMonthly newDate arr) = first_occurrences (map (monthLabel newDate) arr)"
  by (simp add: aggregateMonthly_closed_form comp_def month_bucketOf)

lemma bucket_in_aggregateMonthly:
  "b \<in> set (aggregateMonthly newDate arr) \<Longrightarrow> b = bucketOf newDate arr (month b)"
  by (auto simp add: aggregateMonthly_closed_form month_bucketOf)

lemma filter_month_singleton:
  "distinct ks \<Longrightarrow> k \<in> set ks \<Longrightarrow>
   filter (\<lambda>b. month b = k) (map (bucketOf newDate arr) ks) = [bucketOf newDate arr k]"
  by (induction ks) (auto simp add: month_bucketOf filter_empty_conv)

lemma shortMonth_valid: "shortMonth m \<noteq> ''Invalid Date''"
  by (cases m) simp_all

lemma monthLabel_invalid: "(monthLabel newDate e = ''Invalid Date'') = (newDate (date e) = None)"
  by (simp add: monthLabel_def toLocaleString_def shortMonth_valid split: option.splits)

text \<open>The records of the examples.\<close>

lemma aggregateMonthly_examples:
  "aggregateMonthly isoMonth
     [\<lparr>date = ''2025-04-02'', rate = Some 5\<rparr>, \<lparr>date = ''2025-04-22'', rate = Some 8\<rparr>] =
   [\<lparr>month = ''Apr'', count = 2, rate = 8\<rparr>]"
  "aggregateMonthly isoMonth
     [\<lparr>date = ''2025-03-09'', rate = None\<rparr>, \<lparr>date = ''2025-01-15'', rate = None\<rparr>,
      \<lparr>date = ''2025-03-30'', rate = None\<rparr>] =
   [\<lparr>month = ''Mar'', count = 2, rate = 0\<rparr>, \<lparr>month = ''Jan'', count = 1, rate = 0\<rparr>]"
  "aggregateMonthly isoMonth
     [\<lparr>date = ''2025-04-20'', rate = None\<rparr>, \<lparr>date = ''soon'', rate = Some 5\<rparr>] =
   [\<lparr>month = ''Apr'', count = 1, rate = 0\<rparr>, \<lparr>month = ''Invalid Date'', count = 1, rate = 5\<rparr>]"
  by code_simp+

text \<open>
  C2. In every bucket of the result the rate is the rate of the last record of the
  bucket's label, in input order, that carries a rate: a later such record overwrites
  an earlier one, and the rates are neither added nor averaged.
\<close>

theorem bucket_rate_is_last_rate:
  "\<forall>b \<in> set (aggregateMonthly newDate arr). bucket.rate b = lastRate newDate (month b) arr"
proof
  fix b
  assume "b \<in> set (aggregateMonthly newDate arr)"
  then have "b = bucketOf newDate arr (month b)"
    by (rule bucket_in_aggregateMonthly)
  then have "bucket.rate b = bucket.rate (bucketOf newDate arr (month b))"
    by simp
  then show "bucket.rate b = lastRate newDate (month b) arr"
    by (simp add: bucketOf_def)
qed

theorem bucket_rate_is_last_rate_witness:
  "\<lparr>month = ''Apr'', count = 2, rate = 8\<rparr>
     \<in> set (aggregateMonthly isoMonth
         [\<lparr>date = ''2025-04-02'', rate = Some 5\<rparr>, \<lparr>date = ''2025-04-22'', rate = Some 8\<rparr>])
   \<and> lastRate isoMonth ''Apr''
         [\<lparr>date = ''2025-04-02'', rate = Some 5\<rparr>, \<lparr>date = ''2025-04-22'', rate = Some 8\<rparr>] = 8"
proof -
  let ?arr = "[\<lparr>date = ''2025-04-02'', rate = Some 5\<rparr>, \<lparr>date = ''2025-04-22'', rate = Some 8\<rparr>]"
  let ?b = "\<lparr>month = ''Apr'', count = 2, rate = 8\<rparr>"
  have mem: "?b \<in> set (aggregateMonthly isoMonth ?arr)"
    by (simp add: aggregateMonthly_examples)
  with bucket_rate_is_last_rate [of isoMonth ?arr]
  have "bucket.rate ?b = lastRate isoMonth (month ?b) ?arr"
    by blast
  with mem show ?thesis by simp
qed

text \<open>
  C3. The result has exactly one bucket for each label that a record of the input
  has, and the count of a bucket is the number of input records of its label.
\<close>

theorem one_bucket_per_label:
  "distinct (map month (aggregateMonthly newDate arr))
   \<and> set (map month (aggregateMonthly newDate arr)) = monthLabel newDate ` set arr
   \<and> length (aggregateMonthly newDate arr) = card (monthLabel newDate ` set arr)
   \<and> (\<forall>b \<in> set (aggregateMonthly newDate arr).
         count b = length (filter (\<lambda>e. monthLabel newDate e = month b) arr))"
proof -
  let ?ms = "map month (aggregateMonthly newDate arr)"
  have d: "distinct ?ms" and s: "set ?ms = monthLabel newDate ` set arr"
    by (simp_all add: months_aggregateMonthly)
  have "length (aggregateMonthly newDate arr) = length ?ms"
    by simp
  also have "\<dots> = card (set ?ms)"
    using d by (simp only: distinct_card)
  finally have l: "length (aggregateMonthly newDate arr) = card (monthLabel newDate ` set arr)"
    by (simp only: s)
  have c: "count b = length (filter (\<lambda>e. monthLabel newDate e = month b) arr)"
    if "b \<in> set (aggregateMonthly newDate arr)" for b
  proof -
    from that have "b = bucketOf newDate arr (month b)"
      by (rule bucket_in_aggregateMonthly)
    then have "count b = count (bucketOf newDate arr (month b))"
      by simp
    then show ?thesis
      by (simp add: bucketOf_def)
  qed
  from d s l c show ?thesis by blast
qed

theorem one_bucket_per_label_witness:
  "\<lparr>month = ''Mar'', count = 2, rate = 0\<rparr>
     \<in> set (aggregateMonthly isoMonth
         [\<lparr>date = ''2025-03-09'', rate = None\<rparr>, \<lparr>date = ''2025-01-15'', rate = None\<rparr>,
          \<lparr>date = ''2025-03-30'', rate = None\<rparr>])
   \<and> length (filter (\<lambda>e. monthLabel isoMonth e = ''Mar'')
         [\<lparr>date = ''2025-03-09'', rate = None\<rparr>, \<lparr>date = ''2025-01-15'', rate = None\<rparr>,
          \<lparr>date = ''2025-03-30'', rate = None\<rparr>]) = 2
   \<and> length (aggregateMonthly isoMonth
         [\<lparr>date = ''2025-03-09'', rate = None\<rparr>, \<lparr>date = ''2025-01-15'', rate = None\<rparr>,
          \<lparr>date = ''2025-03-30'', rate = None\<rparr>]) = 2"
proof -
  let ?arr = "[\<lparr>date = ''2025-03-09'', rate = None\<rparr>, \<lparr>date = ''2025-01-15'', rate = None\<rparr>,
          \<lparr>date = ''2025-03-30'', rate = None\<rparr>]"
  let ?b = "\<lparr>month = ''Mar'', count = 2, rate = 0\<rparr>"
  have mem: "?b \<in> set (aggregateMonthly isoMonth ?arr)"
    by (simp add: aggregateMonthly_examples)
  with one_bucket_per_label [of isoMonth ?arr]
  have "count ?b = length (filter (\<lambda>e. monthLabel isoMonth e = month ?b) ?arr)"
    by blast
  with mem show ?thesis by (simp add: aggregateMonthly_examples)
qed

text \<open>
  C4. The labels of the buckets, in the order of the result, are the labels of the
  input in the order of their first occurrence; the calendar plays no part: the labels
  \<^verbatim>\<open>Mar\<close>, \<^verbatim>\<open>Jan\<close>, \<^verbatim>\<open>Mar\<close> give the order \<^verbatim>\<open>Mar\<close>, \<^verbatim>\<open>Jan\<close>.
\<close>

theorem bucket_order_is_first_occurrence:
  "map month (aggregateMonthly newDate arr) = first_occurrences (map (monthLabel newDate) arr)
   \<and> first_occurrences [''Mar'', ''Jan'', ''Mar''] = [''Mar'', ''Jan'']"
  by (simp add: months_aggregateMonthly)

lemma bucket_order_example:
  "map month (aggregateMonthly isoMonth
     [\<lparr>date = ''2025-03-09'', rate = None\<rparr>, \<lparr>date = ''2025-01-15'', rate = None\<rparr>,
      \<lparr>date = ''2025-03-30'', rate = None\<rparr>]) = [''Mar'', ''Jan'']"
  by (simp add: aggregateMonthly_examples)

text \<open>
  C7. A record whose date is unparsable gets the label \<^verbatim>\<open>Invalid Date\<close>; the result has
  exactly one bucket of that label, which counts the records with an unparsable date.
  \<open>aggregateMonthly\<close> has no failing branch: every step of the callback is defined for
  every record, and the result is a list of buckets.
\<close>

theorem unparsable_date_has_fallback_bucket:
  assumes "newDate (date e) = None" and "e \<in> set arr"
  shows "monthLabel newDate e = ''Invalid Date''
    \<and> (\<exists>b. filter (\<lambda>b. month b = ''Invalid Date'') (aggregateMonthly newDate arr) = [b]
          \<and> count b = length (filter (\<lambda>x. newDate (date x) = None) arr)
          \<and> 1 \<le> count b)"
proof -
  let ?k = "''Invalid Date''"
  from assms(1) have lab: "monthLabel newDate e = ?k"
    by (simp add: monthLabel_invalid)
  with assms(2) have "?k \<in> set (first_occurrences (map (monthLabel newDate) arr))"
    by (auto simp add: image_iff intro: bexI [of _ e])
  then have one: "filter (\<lambda>b. month b = ?k) (aggregateMonthly newDate arr) =
      [bucketOf newDate arr ?k]"
    by (simp add: aggregateMonthly_closed_form filter_month_singleton)
  have cnt: "count (bucketOf newDate arr ?k) = length (filter (\<lambda>x. newDate (date x) = None) arr)"
    by (simp add: bucketOf_def monthLabel_invalid)
  from assms have "e \<in> set (filter (\<lambda>x. newDate (date x) = None) arr)"
    by simp
  then have "filter (\<lambda>x. newDate (date x) = None) arr \<noteq> []"
    by (metis empty_iff list.set(1))
  then have "1 \<le> length (filter (\<lambda>x. newDate (date x) = None) arr)"
    by (simp add: Suc_le_eq)
  with lab one cnt show ?thesis by simp
qed

theorem unparsable_date_has_fallback_bucket_witness:
  "isoMonth ''soon'' = None
   \<and> monthLabel isoMonth \<lparr>date = ''soon'', rate = Some 5\<rparr> = ''Invalid Date''
   \<and> (\<exists>b. filter (\<lambda>b. month b = ''Invalid Date'')
            (aggregateMonthly isoMonth
               [\<lparr>date = ''2025-04-20'', rate = None\<rparr>, \<lparr>date = ''soon'', rate = Some 5\<rparr>]) = [b]
          \<and> count b = 1)"
proof -
  let ?e = "\<lparr>date = ''soon'', rate = Some 5\<rparr>"
  let ?arr = "[\<lparr>date = ''2025-04-20'', rate = None\<rparr>, ?e]"
  have p: "isoMonth (date ?e) = None"
    by (simp add: isoMonth_def)
  have m: "?e \<in> set ?arr"
    by simp
  have q: "isoMonth ''2025-04-20'' = Some Apr"
    by (simp add: isoMonth_def)
  have n: "length (filter (\<lambda>x. isoMonth (date x) = None) ?arr) = 1"
    using p q by simp
  from unparsable_date_has_fallback_bucket [of isoMonth ?e ?arr, OF p m]
  show ?thesis using p unfolding n by auto
qed

end
